theory Spec2Isabelle
  imports Main "HOL-Library.AList"
begin

section \<open>The comments component (UtterancesComments.js)\<close>

subsection \<open>A store of DOM elements\<close>

text \<open>
  The ref callback of the component works on the browser's document: it creates an
  element, assigns three of its properties, sets four of its attributes and appends it
  to the element React hands over. The document is modelled as a store of elements; a
  reference to an element is its index in the store, as a JavaScript reference always
  designates a live object. A property assigned by script and an attribute set with
  \<^verbatim>\<open>setAttribute\<close> are kept apart, as the source keeps them apart.
\<close>

datatype propval = PString string | PBool bool

record element =
  localName :: string
  properties :: "(string \<times> propval) list"
  attributes :: "(string \<times> string) list"
  childNodes :: "nat list"

type_synonym dom = "element list"

datatype dom_error = HierarchyRequestError

text \<open>\<^verbatim>\<open>document.createElement(name)\<close>: a new element without parent, properties set by
  script, attributes or children; the reference returned is the next free index.\<close>

definition createElement :: "dom \<Rightarrow> string \<Rightarrow> dom \<times> nat" where
  "createElement d name =
     (d @ [\<lparr>localName = name, properties = [], attributes = [], childNodes = []\<rparr>], length d)"

text \<open>\<^verbatim>\<open>node.key = value\<close> on an element of the store: the property is replaced when it
  was assigned before and added otherwise.\<close>

definition setProperty :: "dom \<Rightarrow> nat \<Rightarrow> string \<Rightarrow> propval \<Rightarrow> dom" where
  "setProperty d node key v =
     d[node := (d ! node)\<lparr>properties := AList.update key v (properties (d ! node))\<rparr>]"

text \<open>\<^verbatim>\<open>node.setAttribute(name, value)\<close>, for a valid attribute name.\<close>

definition setAttribute :: "dom \<Rightarrow> nat \<Rightarrow> string \<Rightarrow> string \<Rightarrow> dom" where
  "setAttribute d node name v =
     d[node := (d ! node)\<lparr>attributes := AList.update name v (attributes (d ! node))\<rparr>]"

text \<open>\<open>reaches d k a b\<close>: element \<open>b\<close> is \<open>a\<close> or a descendant of \<open>a\<close> at depth at
  most \<open>k\<close>.\<close>

fun reaches :: "dom \<Rightarrow> nat \<Rightarrow> nat \<Rightarrow> nat \<Rightarrow> bool" where
  "reaches d 0 a b = (a = b)"
| "reaches d (Suc k) a b = (a = b \<or> list_ex (\<lambda>c. reaches d k c b) (childNodes (d ! a)))"

text \<open>\<^verbatim>\<open>parent.appendChild(node)\<close>: the DOM refuses to insert a node into itself or into
  one of its descendants (\<^verbatim>\<open>HierarchyRequestError\<close>); otherwise the node is removed from
  the parent it had, if any, and becomes the last child of \<open>parent\<close>.\<close>

definition appendChild :: "dom \<Rightarrow> nat \<Rightarrow> nat \<Rightarrow> dom_error + dom" where
  "appendChild d parent node =
     (if reaches d (length d) node parent then Inl HierarchyRequestError
      else
        let d' = map (\<lambda>e. e\<lparr>childNodes := removeAll node (childNodes e)\<rparr>) d
        in Inr (d'[parent := (d' ! parent)\<lparr>childNodes := childNodes (d' ! parent) @ [node]\<rparr>]))"

subsection \<open>The ref callback\<close>

text \<open>
  \<open>node_env\<close> is \<^verbatim>\<open>process.env.NODE_ENV\<close> (\<open>None\<close> when it is not defined), \<open>elem\<close>
  the argument React passes to the callback: the section element, or \<open>None\<close> for
  \<^verbatim>\<open>null\<close>. The result is the document after the call, or the error the call throws.
\<close>

definition refCallback :: "string option \<Rightarrow> nat option \<Rightarrow> dom \<Rightarrow> dom_error + dom" where
  "refCallback node_env elem d =
     (if elem = None \<or> node_env = Some ''development'' then Inr d
      else
        let (d1, scriptElem) = createElement d ''script'';
            d2 = setProperty d1 scriptElem ''src'' (PString ''https://utteranc.es/client.js'');
            d3 = setProperty d2 scriptElem ''async'' (PBool True);
            d4 = setProperty d3 scriptElem ''crossOrigin'' (PString ''anonymous'');
            d5 = setAttribute d4 scriptElem ''repo'' ''lukas-tr/blog'';
            d6 = setAttribute d5 scriptElem ''issue-term'' ''title'';
            d7 = setAttribute d6 scriptElem ''label'' ''comment'';
            d8 = setAttribute d7 scriptElem ''theme'' ''github-light''
        in appendChild d8 (the elem) scriptElem)"

text \<open>\<open>n\<close> successive invocations of the callback with the same element, as happen when
  the component renders again (its ref is a new function at every render); the first
  error ends the sequence.\<close>

fun mounts :: "string option \<Rightarrow> nat \<Rightarrow> nat \<Rightarrow> dom \<Rightarrow> dom_error + dom" where
  "mounts node_env elem 0 d = Inr d"
| "mounts node_env elem (Suc n) d =
     (case refCallback node_env (Some elem) d of
        Inl e \<Rightarrow> Inl e
      | Inr d' \<Rightarrow> mounts node_env elem n d')"

text \<open>Every child reference of a well-formed document designates an element of it.\<close>

definition wellFormed :: "dom \<Rightarrow> bool" where
  "wellFormed d = list_all (\<lambda>e. list_all (\<lambda>c. c < length d) (childNodes e)) d"

text \<open>The element the callback builds.\<close>

definition utterancesScript :: element where
  "utterancesScript =
     \<lparr>localName = ''script'',
      properties = [(''src'', PString ''https://utteranc.es/client.js''),
                    (''async'', PBool True),
                    (''crossOrigin'', PString ''anonymous'')],
      attributes = [(''repo'', ''lukas-tr/blog''), (''issue-term'', ''title''),
                    (''label'', ''comment''), (''theme'', ''github-light'')],
      childNodes = []\<rparr>"

text \<open>The section element of the component, before anything is appended to it.\<close>

abbreviation sectionElement :: element where
  "sectionElement \<equiv>
     \<lparr>localName = ''section'', properties = [], attributes = [], childNodes = []\<rparr>"

section \<open>The page shell (Body)\<close>

subsection \<open>JavaScript values\<close>

text \<open>
  The page shell reads \<^verbatim>\<open>this.props\<close>, an object whose page context holds the site
  metadata and the frontmatter of the page: strings, inside nested objects, any of which
  may be absent. The values modelled are \<^verbatim>\<open>undefined\<close>, strings, and objects given by
  their own enumerable properties in enumeration order; \<^verbatim>\<open>NaN\<close> is there because
  \<^verbatim>\<open>+\<close> produces it from two absent operands. A string is the list of the bytes of its
  UTF-8 encoding.
\<close>

datatype jsval = JUndefined | JNaN | JString string | JObject "(string \<times> jsval) list"

datatype js_error = TypeError

text \<open>\<^verbatim>\<open>object[key]\<close>, for a key that no prototype defines (as every key read by the page
  shell): the own property of an object, \<^verbatim>\<open>undefined\<close> otherwise.\<close>

fun getProp :: "jsval \<Rightarrow> string \<Rightarrow> jsval" where
  "getProp (JObject kvs) key = (case map_of kvs key of None \<Rightarrow> JUndefined | Some v \<Rightarrow> v)"
| "getProp JUndefined key = JUndefined"
| "getProp JNaN key = JUndefined"
| "getProp (JString s) key = JUndefined"

subsection \<open>lodash's \<^verbatim>\<open>_.get(object, path)\<close>\<close>

text \<open>
  A path without brackets is cut at its dots, unless the object has a property under the
  whole path, which is then the only key. The walk stops with \<^verbatim>\<open>undefined\<close> as soon as a
  key is looked up in \<^verbatim>\<open>undefined\<close>.
\<close>

fun stringToPath :: "string \<Rightarrow> string list" where
  "stringToPath [] = [[]]"
| "stringToPath (c # cs) =
     (if c = CHR ''.'' then [] # stringToPath cs
      else (case stringToPath cs of
              [] \<Rightarrow> [[c]]
            | key # keys \<Rightarrow> (c # key) # keys))"

fun isKey :: "string \<Rightarrow> jsval \<Rightarrow> bool" where
  "isKey path (JObject kvs) = (CHR ''.'' \<notin> set path \<or> map_of kvs path \<noteq> None)"
| "isKey path JUndefined = (CHR ''.'' \<notin> set path)"
| "isKey path JNaN = (CHR ''.'' \<notin> set path)"
| "isKey path (JString s) = (CHR ''.'' \<notin> set path)"

definition castPath :: "string \<Rightarrow> jsval \<Rightarrow> string list" where
  "castPath path object = (if isKey path object then [path] else stringToPath path)"

fun baseGet :: "jsval \<Rightarrow> string list \<Rightarrow> jsval" where
  "baseGet object [] = object"
| "baseGet JUndefined (key # path) = JUndefined"
| "baseGet object (key # path) = baseGet (getProp object key) path"

definition get :: "jsval \<Rightarrow> string \<Rightarrow> jsval" where
  "get object path =
     (if object = JUndefined then JUndefined else baseGet object (castPath path object))"

subsection \<open>The operators \<^verbatim>\<open>&&\<close> and \<^verbatim>\<open>+\<close>\<close>

fun toBoolean :: "jsval \<Rightarrow> bool" where
  "toBoolean JUndefined = False"
| "toBoolean JNaN = False"
| "toBoolean (JString s) = (s \<noteq> [])"
| "toBoolean (JObject kvs) = True"

text \<open>The conversion of an operand of \<^verbatim>\<open>+\<close> to a primitive value. An object of data
  inherits \<^verbatim>\<open>toString\<close>, which yields \<^verbatim>\<open>[object Object]\<close>; when it has a property of that
  name of its own, the property is no function and the conversion throws.\<close>

fun toPrimitive :: "jsval \<Rightarrow> js_error + jsval" where
  "toPrimitive (JObject kvs) =
     (if map_of kvs ''toString'' = None then Inr (JString ''[object Object]'')
      else Inl TypeError)"
| "toPrimitive JUndefined = Inr JUndefined"
| "toPrimitive JNaN = Inr JNaN"
| "toPrimitive (JString s) = Inr (JString s)"

fun isString :: "jsval \<Rightarrow> bool" where
  "isString (JString s) = True"
| "isString JUndefined = False"
| "isString JNaN = False"
| "isString (JObject kvs) = False"

fun toString :: "jsval \<Rightarrow> string" where
  "toString JUndefined = ''undefined''"
| "toString JNaN = ''NaN''"
| "toString (JString s) = s"
| "toString (JObject kvs) = ''[object Object]''"

text \<open>\<^verbatim>\<open>a + b\<close>: concatenation when one of the primitives is a string; otherwise both
  are \<^verbatim>\<open>undefined\<close> or \<^verbatim>\<open>NaN\<close>, whose numeric sum is \<^verbatim>\<open>NaN\<close>.\<close>

definition jsAdd :: "jsval \<Rightarrow> jsval \<Rightarrow> js_error + jsval" where
  "jsAdd a b =
     (case toPrimitive a of
        Inl e \<Rightarrow> Inl e
      | Inr pa \<Rightarrow>
          (case toPrimitive b of
             Inl e \<Rightarrow> Inl e
           | Inr pb \<Rightarrow>
               Inr (if isString pa \<or> isString pb then JString (toString pa @ toString pb)
                    else JNaN)))"

subsection \<open>\<^verbatim>\<open>JSON.stringify\<close>\<close>

definition hexDigit :: "nat \<Rightarrow> char" where
  "hexDigit n = ''0123456789abcdef'' ! n"

definition quoteJSONChar :: "char \<Rightarrow> string" where
  "quoteJSONChar c =
     (if c = CHR 0x08 then [CHR 0x5C, CHR ''b'']
      else if c = CHR 0x09 then [CHR 0x5C, CHR ''t'']
      else if c = CHR 0x0A then [CHR 0x5C, CHR ''n'']
      else if c = CHR 0x0C then [CHR 0x5C, CHR ''f'']
      else if c = CHR 0x0D then [CHR 0x5C, CHR ''r'']
      else if c = CHR 0x22 then [CHR 0x5C, CHR 0x22]
      else if c = CHR 0x5C then [CHR 0x5C, CHR 0x5C]
      else if (of_char c :: nat) < 32
        then [CHR 0x5C, CHR ''u'', CHR ''0'', CHR ''0'',
              hexDigit (of_char c div 16), hexDigit (of_char c mod 16)]
      else [c])"

definition quoteJSONString :: "string \<Rightarrow> string" where
  "quoteJSONString s = [CHR 0x22] @ concat (map quoteJSONChar s) @ [CHR 0x22]"

fun joinComma :: "string list \<Rightarrow> string" where
  "joinComma [] = []"
| "joinComma [x] = x"
| "joinComma (x # y # ys) = x @ '','' @ joinComma (y # ys)"

text \<open>The text of a value, \<open>None\<close> where \<^verbatim>\<open>JSON.stringify\<close> yields \<^verbatim>\<open>undefined\<close>. A
  property whose value has no text is left out of its object; \<^verbatim>\<open>NaN\<close> is written
  \<^verbatim>\<open>null\<close>.\<close>

fun serializeJSON :: "jsval \<Rightarrow> string option"
  and serializeProperties :: "(string \<times> jsval) list \<Rightarrow> string list" where
  "serializeJSON JUndefined = None"
| "serializeJSON JNaN = Some ''null''"
| "serializeJSON (JString s) = Some (quoteJSONString s)"
| "serializeJSON (JObject kvs) = Some (''{'' @ joinComma (serializeProperties kvs) @ ''}'')"
| "serializeProperties [] = []"
| "serializeProperties ((k, v) # kvs) =
     (case serializeJSON v of
        None \<Rightarrow> serializeProperties kvs
      | Some text \<Rightarrow> (quoteJSONString k @ '':'' @ text) # serializeProperties kvs)"

definition JSON_stringify :: "jsval \<Rightarrow> jsval" where
  "JSON_stringify v = (case serializeJSON v of None \<Rightarrow> JUndefined | Some text \<Rightarrow> JString text)"

subsection \<open>React elements\<close>

text \<open>
  What \<^verbatim>\<open>render\<close> returns: host elements with their key, props and children, elements of
  the components \<^verbatim>\<open>Header\<close> and \<^verbatim>\<open>Footer\<close> with the props spread into them, the
  \<^verbatim>\<open>Helmet\<close> element with its \<^verbatim>\<open>script\<close> prop and children, a fragment, an array of
  elements, and a value put in braces.
\<close>

datatype vnode =
    VElement string "nat option" "(string \<times> jsval) list" "vnode list"
  | VComponent string "(string \<times> jsval) list"
  | VHelmet "(string \<times> jsval) list list" "vnode list"
  | VFragment "vnode list"
  | VArray "vnode list"
  | VExpr jsval

subsection \<open>\<^verbatim>\<open>Body.render\<close>\<close>

text \<open>The constant \<^verbatim>\<open>title\<close> of \<^verbatim>\<open>render\<close>; the right operand of \<^verbatim>\<open>&&\<close> is evaluated
  only when the left one is truthy.\<close>

definition title :: "jsval \<Rightarrow> js_error + jsval" where
  "title this_props =
     (case (if toBoolean (get this_props ''pageContext.frontmatter.title'')
            then jsAdd (get this_props ''pageContext.frontmatter.title'') (JString '' - '')
            else Inr (get this_props ''pageContext.frontmatter.title'')) of
        Inl e \<Rightarrow> Inl e
      | Inr prefix \<Rightarrow> jsAdd prefix (get this_props ''pageContext.site.siteMetadata.title''))"

text \<open>The \<^verbatim>\<open>className\<close> of the page wrapper.\<close>

definition pageClassName :: "jsval \<Rightarrow> js_error + jsval" where
  "pageClassName this_props =
     (case jsAdd (JString ''site style-'')
                 (get this_props ''pageContext.site.siteMetadata.layout_style'') of
        Inl e \<Rightarrow> Inl e
      | Inr a \<Rightarrow>
          (case jsAdd a (JString '' palette-'') of
             Inl e \<Rightarrow> Inl e
           | Inr b \<Rightarrow> jsAdd b (get this_props ''pageContext.site.siteMetadata.palette'')))"

text \<open>
  \<^verbatim>\<open>render\<close> takes the own properties of \<^verbatim>\<open>this.props\<close> (React always supplies an
  object) and \<^verbatim>\<open>safePrefix\<close>, which is imported from another module. It returns the
  element tree, or the error thrown, together with the props object as the call leaves
  it: \<^verbatim>\<open>render\<close> contains no assignment and calls only \<^verbatim>\<open>_.get\<close>, \<^verbatim>\<open>JSON.stringify\<close>,
  \<^verbatim>\<open>safePrefix\<close> and \<^verbatim>\<open>map\<close> on an array it has built itself.
\<close>

definition render ::
  "(string \<Rightarrow> string) \<Rightarrow> (string \<times> jsval) list \<Rightarrow> (js_error + vnode) \<times> (string \<times> jsval) list" where
  "render safePrefix props =
     (let this_props = JObject props;
          description = get this_props ''pageContext.site.siteMetadata.description'';
          title_result = title this_props;
          author = get this_props ''pageContext.site.siteMetadata.author'';
          image = get this_props ''pageContext.site.siteMetadata.image'';
          url = get this_props ''pageContext.site.siteMetadata.siteUrl''
      in
       ((case title_result of
          Inl e \<Rightarrow> Inl e
        | Inr title_value \<Rightarrow>
           (case pageClassName this_props of
              Inl e \<Rightarrow> Inl e
            | Inr className \<Rightarrow>
               Inr (VFragment
                [VHelmet
                  [[(''type'', JString ''application/ld+json''),
                    (''innerHTML'', JSON_stringify (JObject
                       [(''@context'', JString ''https://schema.org''),
                        (''@type'', JString ''WebSite''),
                        (''url'', url)]))]]
                  [VElement ''title'' None [] [VExpr title_value],
                   VElement ''meta'' None [(''charSet'', JString ''utf-8'')] [],
                   VElement ''meta'' None
                     [(''name'', JString ''viewport''),
                      (''content'', JString ''width=device-width, initialScale=1.0'')] [],
                   VElement ''meta'' None
                     [(''name'', JString ''google''), (''content'', JString ''notranslate'')] [],
                   VElement ''link'' None
                     [(''href'', JString ''https://fonts.googleapis.com/css?family=Roboto:400,400i,700,700i''),
                      (''rel'', JString ''stylesheet'')] [],
                   VElement ''link'' None
                     [(''rel'', JString ''stylesheet''),
                      (''href'', JString (safePrefix ''assets/css/main.css''))] [],
                   VElement ''link'' None
                     [(''rel'', JString ''alternate''), (''type'', JString ''application/rss+xml''),
                      (''title'', JString ''RSS''),
                      (''href'', JString ''https://blog.lukastroyer.com/rss.xml'')] [],
                   VElement ''link'' None
                     [(''rel'', JString ''stylesheet''),
                      (''href'', JString (safePrefix ''assets/css/all.css''))] [],
                   VArray (map
                     (\<lambda>(idx, m). VElement ''meta'' (Some idx)
                        [(''name'', getProp (JObject m) ''name''),
                         (''property'', getProp (JObject m) ''property''),
                         (''content'', getProp (JObject m) ''content'')] [])
                     (enumerate 0
                       [[(''name'', JString ''description''), (''content'', description)],
                        [(''property'', JString ''og:title''), (''content'', title_value)],
                        [(''property'', JString ''og:description''), (''content'', description)],
                        [(''property'', JString ''og:type''), (''content'', JString ''website'')],
                        [(''property'', JString ''og:image''), (''content'', image)],
                        [(''name'', JString ''twitter:card''), (''content'', JString ''summary'')],
                        [(''name'', JString ''twitter:creator''), (''content'', author)],
                        [(''name'', JString ''twitter:title''), (''content'', title_value)],
                        [(''name'', JString ''twitter:description''), (''content'', description)],
                        [(''name'', JString ''twitter:image''), (''content'', image)]]))],
                 VElement ''div'' None [(''id'', JString ''page''), (''className'', className)]
                  [VComponent ''Header'' props,
                   VElement ''div'' None
                     [(''id'', JString ''content''), (''className'', JString ''site-content'')]
                     [VElement ''div'' None [(''className'', JString ''inner'')]
                       [VElement ''main'' None
                          [(''id'', JString ''main''), (''className'', JString ''site-main'')]
                          [VExpr (getProp this_props ''children'')],
                        VComponent ''Footer'' props]]]]))),
        props))"

subsection \<open>Reading the rendered tree\<close>

text \<open>
  The host elements and the \<^verbatim>\<open>Helmet\<close> elements of a tree in document order, and what
  the properties below read from them: the \<^verbatim>\<open>content\<close> of the \<^verbatim>\<open>meta\<close> elements with a
  given \<^verbatim>\<open>name\<close> or \<^verbatim>\<open>property\<close>, the children of the \<^verbatim>\<open>title\<close> elements, the
  \<^verbatim>\<open>innerHTML\<close> of the scripts handed to \<^verbatim>\<open>Helmet\<close>, and the class names.
\<close>

fun hostElements :: "vnode \<Rightarrow> vnode list" where
  "hostElements (VElement t k ps cs) = VElement t k ps cs # concat (map hostElements cs)"
| "hostElements (VComponent n ps) = []"
| "hostElements (VHelmet scripts cs) = concat (map hostElements cs)"
| "hostElements (VFragment cs) = concat (map hostElements cs)"
| "hostElements (VArray cs) = concat (map hostElements cs)"
| "hostElements (VExpr v) = []"

fun helmets :: "vnode \<Rightarrow> vnode list" where
  "helmets (VElement t k ps cs) = concat (map helmets cs)"
| "helmets (VComponent n ps) = []"
| "helmets (VHelmet scripts cs) = VHelmet scripts cs # concat (map helmets cs)"
| "helmets (VFragment cs) = concat (map helmets cs)"
| "helmets (VArray cs) = concat (map helmets cs)"
| "helmets (VExpr v) = []"

fun tagOf :: "vnode \<Rightarrow> string" where
  "tagOf (VElement t k ps cs) = t"
| "tagOf (VComponent n ps) = n"
| "tagOf (VHelmet scripts cs) = ''Helmet''"
| "tagOf (VFragment cs) = []"
| "tagOf (VArray cs) = []"
| "tagOf (VExpr v) = []"

fun propsOf :: "vnode \<Rightarrow> (string \<times> jsval) list" where
  "propsOf (VElement t k ps cs) = ps"
| "propsOf (VComponent n ps) = ps"
| "propsOf (VHelmet scripts cs) = []"
| "propsOf (VFragment cs) = []"
| "propsOf (VArray cs) = []"
| "propsOf (VExpr v) = []"

fun childrenOf :: "vnode \<Rightarrow> vnode list" where
  "childrenOf (VElement t k ps cs) = cs"
| "childrenOf (VComponent n ps) = []"
| "childrenOf (VHelmet scripts cs) = cs"
| "childrenOf (VFragment cs) = cs"
| "childrenOf (VArray cs) = cs"
| "childrenOf (VExpr v) = []"

fun scriptsOf :: "vnode \<Rightarrow> (string \<times> jsval) list list" where
  "scriptsOf (VHelmet scripts cs) = scripts"
| "scriptsOf (VElement t k ps cs) = []"
| "scriptsOf (VComponent n ps) = []"
| "scriptsOf (VFragment cs) = []"
| "scriptsOf (VArray cs) = []"
| "scriptsOf (VExpr v) = []"

definition metaContent :: "string \<Rightarrow> string \<Rightarrow> vnode \<Rightarrow> jsval list" where
  "metaContent attr val root =
     map (\<lambda>e. getProp (JObject (propsOf e)) ''content'')
       (filter (\<lambda>e. tagOf e = ''meta'' \<and> getProp (JObject (propsOf e)) attr = JString val)
          (hostElements root))"

definition titleContent :: "vnode \<Rightarrow> vnode list list" where
  "titleContent root = map childrenOf (filter (\<lambda>e. tagOf e = ''title'') (hostElements root))"

definition jsonLd :: "vnode \<Rightarrow> jsval list" where
  "jsonLd root =
     concat (map (\<lambda>h. map (\<lambda>script. getProp (JObject script) ''innerHTML'') (scriptsOf h))
               (helmets root))"

definition classNames :: "vnode \<Rightarrow> jsval list" where
  "classNames root =
     map (\<lambda>e. getProp (JObject (propsOf e)) ''className'')
       (filter (\<lambda>e. map_of (propsOf e) ''className'' \<noteq> None) (hostElements root))"

subsection \<open>Sample contexts\<close>

text \<open>Props objects on which the properties below are evaluated: a site title alone, with
  a description, and with a frontmatter title.\<close>

abbreviation blogOnly :: "(string \<times> jsval) list" where
  "blogOnly \<equiv>
     [(''pageContext'', JObject
        [(''site'', JObject [(''siteMetadata'', JObject [(''title'', JString ''Blog'')])])])]"

abbreviation blogWithDescription :: "(string \<times> jsval) list" where
  "blogWithDescription \<equiv>
     [(''pageContext'', JObject
        [(''site'', JObject
           [(''siteMetadata'', JObject
              [(''title'', JString ''Blog''), (''description'', JString ''Notes'')])])])]"

abbreviation postAndBlog :: "(string \<times> jsval) list" where
  "postAndBlog \<equiv>
     [(''pageContext'', JObject
        [(''frontmatter'', JObject [(''title'', JString ''Post'')]),
         (''site'', JObject [(''siteMetadata'', JObject [(''title'', JString ''Blog'')])])])]"

section \<open>The plugin manifest (gatsby-config.js)\<close>

text \<open>
  The configuration is data: strings, booleans, arrays, objects, and two functions among
  the options of the syntax highlighter. \<^verbatim>\<open>__dirname\<close>, \<^verbatim>\<open>path.resolve\<close> and the menus
  loaded from \<^verbatim>\<open>src/data/menus.json\<close> are parameters. An entry of the list is either the
  name of a plugin or an object with the name under \<^verbatim>\<open>resolve\<close> and the options under
  \<^verbatim>\<open>options\<close>.
\<close>

datatype config =
    CString string
  | CBool bool
  | CArray "config list"
  | CObject "(string \<times> config) list"
  | CFunction "jsval \<Rightarrow> js_error + jsval"

definition plugins :: "string \<Rightarrow> (string \<Rightarrow> string) \<Rightarrow> config \<Rightarrow> config list" where
  "plugins dirname path_resolve menus =
     [CObject
        [(''resolve'', CString ''gatsby-plugin-sitemap''),
         (''options'', CObject [(''exclude'', CArray [CString ''/admin''])])],
      CObject
        [(''resolve'', CString ''gatsby-plugin-robots-txt''),
         (''options'', CObject
            [(''policy'', CArray [CObject [(''userAgent'', CString ''*''), (''allow'', CString ''/'')]])])],
      CString ''gatsby-plugin-react-helmet'',
      CString ''gatsby-source-data'',
      CObject
        [(''resolve'', CString ''gatsby-source-filesystem''),
         (''options'', CObject
            [(''name'', CString ''pages''),
             (''path'', CString (dirname @ ''/src/pages''))])],
      CObject
        [(''resolve'', CString ''gatsby-plugin-stackbit-static-sass''),
         (''options'', CObject
            [(''inputFile'', CString (dirname @ ''/src/sass/main.scss'')),
             (''outputFile'', CString (dirname @ ''/public/assets/css/main.css''))])],
      CObject
        [(''resolve'', CString ''gatsby-transformer-remark''),
         (''options'', CObject
            [(''plugins'', CArray
               [CString ''gatsby-remark-component'',
                CObject
                  [(''resolve'', CString ''gatsby-remark-vscode''),
                   (''options'', CObject
                      [(''colorTheme'', CObject
                          [(''defaultTheme'', CString ''Light+ (default light)''),
                           (''prefersDarkTheme'', CString ''Dark+ (default dark)'')]),
                       (''wrapperClassName'', CString []),
                       (''injectStyles'', CBool True),
                       (''extensions'', CArray []),
                       (''extensionDataDirectory'', CString (path_resolve ''extensions'')),
                       (''languageAliases'', CObject []),
                       (''replaceColor'', CFunction (\<lambda>x. Inr x)),
                       (''getLineClassName'', CFunction
                          (\<lambda>line. if line = JUndefined then Inl TypeError else Inr (JString []))),
                       (''logLevel'', CString ''error'')])]])])],
      CObject
        [(''resolve'', CString ''gatsby-remark-page-creator''),
         (''options'', CObject [])],
      CObject
        [(''resolve'', CString ''@stackbit/gatsby-plugin-menus''),
         (''options'', CObject
            [(''sourceUrlPath'', CString ''fields.url''),
             (''pageContextProperty'', CString ''menus''),
             (''menus'', menus)])]]"

text \<open>The name of the plugin an entry declares.\<close>

fun pluginName :: "config \<Rightarrow> string option" where
  "pluginName (CString name) = Some name"
| "pluginName (CObject kvs) =
     (case map_of kvs ''resolve'' of Some (CString name) \<Rightarrow> Some name | _ \<Rightarrow> None)"
| "pluginName (CBool b) = None"
| "pluginName (CArray xs) = None"
| "pluginName (CFunction f) = None"

text \<open>The position of the first occurrence of a value in a list.\<close>

fun indexOf :: "'a list \<Rightarrow> 'a \<Rightarrow> nat option" where
  "indexOf [] x = None"
| "indexOf (y # ys) x = (if y = x then Some 0 else map_option Suc (indexOf ys x))"

text \<open>The option \<open>key\<close> of the first entry that declares the plugin \<open>name\<close>.\<close>

fun pluginOption :: "config list \<Rightarrow> string \<Rightarrow> string \<Rightarrow> config option" where
  "pluginOption [] name key = None"
| "pluginOption (entry # entries) name key =
     (if pluginName entry = Some name
      then (case entry of
              CObject kvs \<Rightarrow>
                (case map_of kvs ''options'' of
                   Some (CObject options) \<Rightarrow> map_of options key
                 | _ \<Rightarrow> None)
            | _ \<Rightarrow> None)
      else pluginOption entries name key)"

section \<open>Properties of the comments component\<close>

subsection \<open>Appending a new element to a well-formed document\<close>

lemma reaches_fresh:
  assumes "childNodes s = []" "t < length d"
  shows "\<not> reaches (d @ [s]) k (length d) t"
  using assms by (cases k) auto

lemma detach_fresh:
  assumes "wellFormed d" "childNodes s = []"
  shows "map (\<lambda>e. e\<lparr>childNodes := removeAll (length d) (childNodes e)\<rparr>) (d @ [s]) = d @ [s]"
proof -
  have "e\<lparr>childNodes := removeAll (length d) (childNodes e)\<rparr> = e" if "e \<in> set d" for e
  proof -
    from assms(1) that have "\<forall>c \<in> set (childNodes e). c < length d"
      by (simp add: wellFormed_def list_all_iff)
    then have "length d \<notin> set (childNodes e)" by auto
    then show ?thesis by simp
  qed
  then have "map (\<lambda>e. e\<lparr>childNodes := removeAll (length d) (childNodes e)\<rparr>) d = d"
    by (simp add: map_idI)
  with assms(2) show ?thesis by simp
qed

lemma appendChild_fresh:
  assumes "wellFormed d" "childNodes s = []" "t < length d"
  shows "appendChild (d @ [s]) t (length d) =
         Inr (d[t := (d ! t)\<lparr>childNodes := childNodes (d ! t) @ [length d]\<rparr>] @ [s])"
proof -
  have "\<not> reaches (d @ [s]) (length (d @ [s])) (length d) t"
    using assms(2,3) by (rule reaches_fresh)
  then show ?thesis
    using assms detach_fresh [OF assms(1,2)]
    by (simp add: appendChild_def Let_def nth_append list_update_append1)
qed

lemma refCallback_production:
  assumes "node_env \<noteq> Some ''development''" "elem < length d" "wellFormed d"
  shows "refCallback node_env (Some elem) d =
         Inr (d[elem := (d ! elem)\<lparr>childNodes := childNodes (d ! elem) @ [length d]\<rparr>]
              @ [utterancesScript])"
proof -
  have "childNodes utterancesScript = []" by (simp add: utterancesScript_def)
  from appendChild_fresh [OF assms(3) this assms(2)] assms(1) show ?thesis
    unfolding refCallback_def utterancesScript_def
    by (simp add: createElement_def setProperty_def setAttribute_def)
qed

lemma wellFormed_production:
  assumes "elem < length d" "wellFormed d"
  shows "wellFormed (d[elem := (d ! elem)\<lparr>childNodes := childNodes (d ! elem) @ [length d]\<rparr>]
              @ [utterancesScript])"
proof -
  have old: "c < Suc (length d)" if "e \<in> set d" "c \<in> set (childNodes e)" for e c
    using assms(2) that by (auto simp: wellFormed_def list_all_iff intro: less_SucI)
  have target: "d ! elem \<in> set d"
    using assms(1) by simp
  have "c < Suc (length d)"
    if "e \<in> set (d[elem := (d ! elem)\<lparr>childNodes := childNodes (d ! elem) @ [length d]\<rparr>])"
       "c \<in> set (childNodes e)" for e c
  proof -
    from that(1) have "e = (d ! elem)\<lparr>childNodes := childNodes (d ! elem) @ [length d]\<rparr> \<or> e \<in> set d"
      using set_update_subset_insert by fastforce
    then show ?thesis
      using that(2) old target by auto
  qed
  then show ?thesis
    by (simp add: wellFormed_def list_all_iff utterancesScript_def)
qed


subsection \<open>Development builds\<close>

text \<open>
  Claim C1. Whenever \<^verbatim>\<open>process.env.NODE_ENV\<close> is \<^verbatim>\<open>"development"\<close>, the ref callback
  returns the document it was given: no element is created, nothing is appended to the
  mount target, and no error is thrown, whatever element (or \<^verbatim>\<open>null\<close>) it receives.
\<close>

theorem refCallback_development:
  assumes "node_env = Some ''development''"
  shows "refCallback node_env elem d = Inr d"
  using assms by (simp add: refCallback_def)

theorem refCallback_development_witness:
  "Some ''development'' = Some ''development'' \<and>
   refCallback (Some ''development'') (Some 0) [sectionElement] = Inr [sectionElement]"
  using refCallback_development [of "Some ''development''" "Some 0" "[sectionElement]"]
  by simp

subsection \<open>Production builds\<close>

text \<open>
  Claim C2, as amended. When \<^verbatim>\<open>process.env.NODE_ENV\<close> is not \<^verbatim>\<open>"development"\<close> and the
  callback receives an element of a well-formed document, the call succeeds, adds exactly
  one element to the document and makes it the last child of the mount target; every
  other element is as before. The new element is a \<^verbatim>\<open>script\<close> that carries seven fixed
  settings: the three properties \<^verbatim>\<open>src\<close>, \<^verbatim>\<open>async\<close> and \<^verbatim>\<open>crossOrigin\<close>, and the four
  attributes \<^verbatim>\<open>repo\<close>, \<^verbatim>\<open>issue-term\<close>, \<^verbatim>\<open>label\<close> and \<^verbatim>\<open>theme\<close>, with the values below.
\<close>

theorem refCallback_appends_script:
  assumes "node_env \<noteq> Some ''development''" "elem < length d" "wellFormed d"
  shows "refCallback node_env (Some elem) d =
         Inr (d[elem := (d ! elem)\<lparr>childNodes := childNodes (d ! elem) @ [length d]\<rparr>]
              @ [\<lparr>localName = ''script'',
                   properties = [(''src'', PString ''https://utteranc.es/client.js''),
                                 (''async'', PBool True),
                                 (''crossOrigin'', PString ''anonymous'')],
                   attributes = [(''repo'', ''lukas-tr/blog''), (''issue-term'', ''title''),
                                 (''label'', ''comment''), (''theme'', ''github-light'')],
                   childNodes = []\<rparr>])"
  using refCallback_production [OF assms] by (simp add: utterancesScript_def)

theorem refCallback_appends_script_witness:
  "Some ''production'' \<noteq> Some ''development'' \<and> (0::nat) < length [sectionElement] \<and>
   wellFormed [sectionElement] \<and>
   refCallback (Some ''production'') (Some 0) [sectionElement] =
     Inr [\<lparr>localName = ''section'', properties = [], attributes = [], childNodes = [1]\<rparr>,
          \<lparr>localName = ''script'',
           properties = [(''src'', PString ''https://utteranc.es/client.js''),
                         (''async'', PBool True),
                         (''crossOrigin'', PString ''anonymous'')],
           attributes = [(''repo'', ''lukas-tr/blog''), (''issue-term'', ''title''),
                         (''label'', ''comment''), (''theme'', ''github-light'')],
           childNodes = []\<rparr>]"
  using refCallback_appends_script [of "Some ''production''" 0 "[sectionElement]"]
  by (simp add: wellFormed_def)

text \<open>
  The claim as written speaks of five fixed attributes. On a document that holds only the
  section, the element the callback appends has three properties assigned and four
  attributes set: seven settings.
\<close>

theorem refCallback_five_settings_counterexample:
  "length (properties (projr (refCallback (Some ''production'') (Some 0) [sectionElement]) ! 1))
   + length (attributes (projr (refCallback (Some ''production'') (Some 0) [sectionElement]) ! 1))
   \<noteq> 5"
  by (simp add: refCallback_def createElement_def setProperty_def setAttribute_def
      appendChild_def)

subsection \<open>A missing mount target\<close>

text \<open>
  Claim C4. When React passes \<^verbatim>\<open>null\<close> to the ref callback, the call returns normally and
  the document is the one it was given, whatever \<^verbatim>\<open>process.env.NODE_ENV\<close> is.
\<close>

theorem refCallback_null:
  "refCallback node_env None d = Inr d"
  by (simp add: refCallback_def)

subsection \<open>Mounting again\<close>

text \<open>
  Claim C7. Outside development, \<open>n\<close> successive invocations of the ref callback with the
  same element of a well-formed document all succeed and append \<open>n\<close> script elements to
  it: the \<open>n\<close> new elements of the document, each with the fixed settings, become the
  last \<open>n\<close> children of the target in the order of their creation. Nothing is checked
  for a script that is already there.
\<close>

theorem mounts_appends_n_scripts:
  assumes "node_env \<noteq> Some ''development''" "elem < length d" "wellFormed d"
  shows "mounts node_env elem n d =
         Inr (d[elem := (d ! elem)\<lparr>childNodes := childNodes (d ! elem) @ [length d ..< length d + n]\<rparr>]
              @ replicate n utterancesScript)"
  using assms(2,3)
proof (induction n arbitrary: d)
  case 0
  then show ?case by simp
next
  case (Suc n)
  let ?d1 = "d[elem := (d ! elem)\<lparr>childNodes := childNodes (d ! elem) @ [length d]\<rparr>] @ [utterancesScript]"
  have step: "refCallback node_env (Some elem) d = Inr ?d1"
    using assms(1) Suc.prems by (rule refCallback_production)
  have wf1: "wellFormed ?d1" using Suc.prems by (rule wellFormed_production)
  have len1: "elem < length ?d1" using Suc.prems(1) by simp
  have upt: "[length d] @ [Suc (length d) ..< Suc (length d) + n] = [length d ..< length d + Suc n]"
    by (simp add: upt_conv_Cons)
  have "mounts node_env elem (Suc n) d = mounts node_env elem n ?d1"
    by (simp add: step)
  also have "\<dots> = Inr (?d1[elem := (?d1 ! elem)\<lparr>childNodes := childNodes (?d1 ! elem) @ [length ?d1 ..< length ?d1 + n]\<rparr>]
              @ replicate n utterancesScript)"
    using len1 wf1 by (rule Suc.IH)
  also have "\<dots> = Inr (d[elem := (d ! elem)\<lparr>childNodes := childNodes (d ! elem) @ [length d ..< length d + Suc n]\<rparr>]
              @ replicate (Suc n) utterancesScript)"
    using Suc.prems(1) upt
    by (simp add: nth_append list_update_append1 replicate_app_Cons_same del: upt_Suc)
  finally show ?case .
qed


theorem mounts_appends_n_scripts_witness:
  "Some ''production'' \<noteq> Some ''development'' \<and> (0::nat) < length [sectionElement] \<and>
   wellFormed [sectionElement] \<and>
   mounts (Some ''production'') 0 3 [sectionElement] =
     Inr [\<lparr>localName = ''section'', properties = [], attributes = [], childNodes = [1, 2, 3]\<rparr>,
          utterancesScript, utterancesScript, utterancesScript]"
  using mounts_appends_n_scripts [of "Some ''production''" 0 "[sectionElement]" 3]
  by (simp add: wellFormed_def upt_rec numeral_3_eq_3)

section \<open>Properties of the page shell\<close>

subsection \<open>When rendering succeeds\<close>

lemma jsAdd_total:
  assumes "toPrimitive a \<noteq> Inl TypeError" "toPrimitive b \<noteq> Inl TypeError"
  shows "\<exists>v. jsAdd a b = Inr v \<and> toPrimitive v \<noteq> Inl TypeError"
  using assms
  by (cases a; cases b) (auto simp: jsAdd_def split: if_splits)

lemma title_total:
  assumes "toPrimitive (get this_props ''pageContext.frontmatter.title'') \<noteq> Inl TypeError"
    and "toPrimitive (get this_props ''pageContext.site.siteMetadata.title'') \<noteq> Inl TypeError"
  shows "\<exists>t. title this_props = Inr t"
proof (cases "toBoolean (get this_props ''pageContext.frontmatter.title'')")
  case True
  have "toPrimitive (JString '' - '') \<noteq> Inl TypeError" by simp
  from jsAdd_total [OF assms(1) this] obtain l
    where l: "jsAdd (get this_props ''pageContext.frontmatter.title'') (JString '' - '') = Inr l"
      "toPrimitive l \<noteq> Inl TypeError" by blast
  from jsAdd_total [OF l(2) assms(2)] show ?thesis
    using True l(1) by (auto simp: title_def)
next
  case False
  from jsAdd_total [OF assms(1) assms(2)] show ?thesis
    using False by (auto simp: title_def)
qed

lemma pageClassName_total:
  assumes "toPrimitive (get this_props ''pageContext.site.siteMetadata.layout_style'') \<noteq> Inl TypeError"
    and "toPrimitive (get this_props ''pageContext.site.siteMetadata.palette'') \<noteq> Inl TypeError"
  shows "\<exists>c. pageClassName this_props = Inr c"
proof -
  have s: "toPrimitive (JString x) \<noteq> Inl TypeError" for x by simp
  from jsAdd_total [OF s assms(1)] obtain a
    where a: "jsAdd (JString ''site style-'') (get this_props ''pageContext.site.siteMetadata.layout_style'') = Inr a"
      "toPrimitive a \<noteq> Inl TypeError" by blast
  from jsAdd_total [OF a(2) s] obtain b
    where b: "jsAdd a (JString '' palette-'') = Inr b" "toPrimitive b \<noteq> Inl TypeError" by blast
  from jsAdd_total [OF b(2) assms(2)] show ?thesis
    using a(1) b(1) by (auto simp: pageClassName_def)
qed

lemma render_observed:
  assumes "title (JObject props) = Inr t" "pageClassName (JObject props) = Inr c"
  shows "\<exists>root. render safePrefix props = (Inr root, props)
    \<and> titleContent root = [[VExpr t]]
    \<and> metaContent ''name'' ''description'' root = [get (JObject props) ''pageContext.site.siteMetadata.description'']
    \<and> metaContent ''property'' ''og:description'' root = [get (JObject props) ''pageContext.site.siteMetadata.description'']
    \<and> metaContent ''name'' ''twitter:description'' root = [get (JObject props) ''pageContext.site.siteMetadata.description'']
    \<and> metaContent ''property'' ''og:title'' root = [t]
    \<and> metaContent ''name'' ''twitter:title'' root = [t]
    \<and> metaContent ''property'' ''og:image'' root = [get (JObject props) ''pageContext.site.siteMetadata.image'']
    \<and> metaContent ''name'' ''twitter:image'' root = [get (JObject props) ''pageContext.site.siteMetadata.image'']
    \<and> metaContent ''name'' ''twitter:creator'' root = [get (JObject props) ''pageContext.site.siteMetadata.author'']
    \<and> jsonLd root = [JSON_stringify (JObject
                       [(''@context'', JString ''https://schema.org''),
                        (''@type'', JString ''WebSite''),
                        (''url'', get (JObject props) ''pageContext.site.siteMetadata.siteUrl'')])]
    \<and> classNames root = [c, JString ''site-content'', JString ''inner'', JString ''site-main'']"
  using assms
  by (simp add: render_def Let_def metaContent_def titleContent_def jsonLd_def classNames_def enumerate_eq_zip upt_rec)

lemmas get_eval = get_def castPath_def
lemmas obs_eval = render_def Let_def title_def pageClassName_def jsAdd_def metaContent_def
  titleContent_def jsonLd_def classNames_def enumerate_eq_zip upt_rec JSON_stringify_def

subsection \<open>Absent description, author, image and site URL\<close>

text \<open>
  Whenever \<^verbatim>\<open>render\<close> returns a tree, which it does when the four values it concatenates
  can be converted to primitives, an absent description leaves the content of the
  \<^verbatim>\<open>description\<close>, \<^verbatim>\<open>og:description\<close> and \<^verbatim>\<open>twitter:description\<close> tags undefined, an
  absent author that of \<^verbatim>\<open>twitter:creator\<close>, an absent image that of \<^verbatim>\<open>og:image\<close> and
  \<^verbatim>\<open>twitter:image\<close>, and with an absent site URL the JSON-LD descriptor has no \<^verbatim>\<open>url\<close>
  member.
\<close>

lemma render_absent_fields:
  assumes "toPrimitive (get (JObject props) ''pageContext.frontmatter.title'') \<noteq> Inl TypeError"
    and "toPrimitive (get (JObject props) ''pageContext.site.siteMetadata.title'') \<noteq> Inl TypeError"
    and "toPrimitive (get (JObject props) ''pageContext.site.siteMetadata.layout_style'') \<noteq> Inl TypeError"
    and "toPrimitive (get (JObject props) ''pageContext.site.siteMetadata.palette'') \<noteq> Inl TypeError"
  shows "\<exists>root. fst (render safePrefix props) = Inr root
    \<and> (get (JObject props) ''pageContext.site.siteMetadata.description'' = JUndefined \<longrightarrow>
         metaContent ''name'' ''description'' root = [JUndefined]
         \<and> metaContent ''property'' ''og:description'' root = [JUndefined]
         \<and> metaContent ''name'' ''twitter:description'' root = [JUndefined])
    \<and> (get (JObject props) ''pageContext.site.siteMetadata.author'' = JUndefined \<longrightarrow>
         metaContent ''name'' ''twitter:creator'' root = [JUndefined])
    \<and> (get (JObject props) ''pageContext.site.siteMetadata.image'' = JUndefined \<longrightarrow>
         metaContent ''property'' ''og:image'' root = [JUndefined]
         \<and> metaContent ''name'' ''twitter:image'' root = [JUndefined])
    \<and> (get (JObject props) ''pageContext.site.siteMetadata.siteUrl'' = JUndefined \<longrightarrow>
         jsonLd root = [JSON_stringify (JObject
                         [(''@context'', JString ''https://schema.org''),
                          (''@type'', JString ''WebSite'')])])"
proof -
  from title_total [OF assms(1,2)] obtain t where t: "title (JObject props) = Inr t" ..
  from pageClassName_total [OF assms(3,4)] obtain c
    where c: "pageClassName (JObject props) = Inr c" ..
  from render_observed [OF t c, of safePrefix] obtain root
    where root: "render safePrefix props = (Inr root, props)"
      "metaContent ''name'' ''description'' root = [get (JObject props) ''pageContext.site.siteMetadata.description'']"
      "metaContent ''property'' ''og:description'' root = [get (JObject props) ''pageContext.site.siteMetadata.description'']"
      "metaContent ''name'' ''twitter:description'' root = [get (JObject props) ''pageContext.site.siteMetadata.description'']"
      "metaContent ''property'' ''og:image'' root = [get (JObject props) ''pageContext.site.siteMetadata.image'']"
      "metaContent ''name'' ''twitter:image'' root = [get (JObject props) ''pageContext.site.siteMetadata.image'']"
      "metaContent ''name'' ''twitter:creator'' root = [get (JObject props) ''pageContext.site.siteMetadata.author'']"
      "jsonLd root = [JSON_stringify (JObject
                       [(''@context'', JString ''https://schema.org''),
                        (''@type'', JString ''WebSite''),
                        (''url'', get (JObject props) ''pageContext.site.siteMetadata.siteUrl'')])]"
    by blast
  have "fst (render safePrefix props) = Inr root"
    using root(1) by simp
  moreover have "jsonLd root = [JSON_stringify (JObject
                         [(''@context'', JString ''https://schema.org''),
                          (''@type'', JString ''WebSite'')])]"
    if "get (JObject props) ''pageContext.site.siteMetadata.siteUrl'' = JUndefined"
    using root(8) that by (simp add: JSON_stringify_def)
  ultimately show ?thesis
    using root(2-7) by auto
qed

lemma render_absent_fields_example:
  "toPrimitive (get (JObject postAndBlog) ''pageContext.frontmatter.title'') \<noteq> Inl TypeError
   \<and> toPrimitive (get (JObject postAndBlog) ''pageContext.site.siteMetadata.title'') \<noteq> Inl TypeError
   \<and> toPrimitive (get (JObject postAndBlog) ''pageContext.site.siteMetadata.layout_style'') \<noteq> Inl TypeError
   \<and> toPrimitive (get (JObject postAndBlog) ''pageContext.site.siteMetadata.palette'') \<noteq> Inl TypeError
   \<and> get (JObject postAndBlog) ''pageContext.site.siteMetadata.description'' = JUndefined
   \<and> get (JObject postAndBlog) ''pageContext.site.siteMetadata.author'' = JUndefined
   \<and> get (JObject postAndBlog) ''pageContext.site.siteMetadata.image'' = JUndefined
   \<and> get (JObject postAndBlog) ''pageContext.site.siteMetadata.siteUrl'' = JUndefined
   \<and> (\<exists>root. fst (render id postAndBlog) = Inr root
        \<and> metaContent ''name'' ''description'' root = [JUndefined]
        \<and> metaContent ''property'' ''og:description'' root = [JUndefined]
        \<and> metaContent ''name'' ''twitter:description'' root = [JUndefined]
        \<and> metaContent ''name'' ''twitter:creator'' root = [JUndefined]
        \<and> metaContent ''property'' ''og:image'' root = [JUndefined]
        \<and> metaContent ''name'' ''twitter:image'' root = [JUndefined]
        \<and> jsonLd root = [JSON_stringify (JObject
                         [(''@context'', JString ''https://schema.org''),
                          (''@type'', JString ''WebSite'')])])"
  using render_absent_fields [of postAndBlog id]
  by (simp add: get_eval)

subsection \<open>The document title of a page without frontmatter title\<close>

text \<open>
  Claim C3. The claim promises that a missing metadata field leaves the content of its tag
  blank, in particular the document title when the frontmatter has no title. The guard
  \<^verbatim>\<open>&&\<close> of \<^verbatim>\<open>title\<close> does drop the separator for a missing frontmatter title, but
  it yields \<^verbatim>\<open>undefined\<close>, which \<^verbatim>\<open>+\<close> then turns into text: for the props with the site
  title \<^verbatim>\<open>Blog\<close>, a description and no frontmatter, \<^verbatim>\<open>render\<close> returns a tree whose
  \<^verbatim>\<open>title\<close> element, \<^verbatim>\<open>og:title\<close> tag and \<^verbatim>\<open>twitter:title\<close> tag hold \<^verbatim>\<open>undefinedBlog\<close>,
  which is neither \<^verbatim>\<open>undefined\<close> nor the empty string.
\<close>

theorem render_title_failing_input:
  "get (JObject blogWithDescription) ''pageContext.frontmatter.title'' = JUndefined
   \<and> titleContent (projr (fst (render id blogWithDescription)))
       = [[VExpr (JString ''undefinedBlog'')]]
   \<and> metaContent ''property'' ''og:title'' (projr (fst (render id blogWithDescription)))
       = [JString ''undefinedBlog'']
   \<and> metaContent ''name'' ''twitter:title'' (projr (fst (render id blogWithDescription)))
       = [JString ''undefinedBlog'']
   \<and> JString ''undefinedBlog'' \<noteq> JUndefined \<and> JString ''undefinedBlog'' \<noteq> JString []"
  by (simp add: get_eval obs_eval)

subsection \<open>The title without a frontmatter title\<close>

text \<open>
  Claim C9. For every context in which the frontmatter title is absent and the site title
  is a string, the constant \<^verbatim>\<open>title\<close> is the text \<^verbatim>\<open>undefined\<close> followed by the site
  title, and whenever \<^verbatim>\<open>render\<close> returns a tree, that text is the child of its \<^verbatim>\<open>title\<close>
  element and the content of its \<^verbatim>\<open>og:title\<close> and \<^verbatim>\<open>twitter:title\<close> tags.
\<close>

theorem title_without_frontmatter_title:
  assumes "get (JObject props) ''pageContext.frontmatter.title'' = JUndefined"
    and "get (JObject props) ''pageContext.site.siteMetadata.title'' = JString siteTitle"
  shows "title (JObject props) = Inr (JString (''undefined'' @ siteTitle))
    \<and> (\<forall>root. fst (render safePrefix props) = Inr root \<longrightarrow>
          titleContent root = [[VExpr (JString (''undefined'' @ siteTitle))]]
          \<and> metaContent ''property'' ''og:title'' root = [JString (''undefined'' @ siteTitle)]
          \<and> metaContent ''name'' ''twitter:title'' root = [JString (''undefined'' @ siteTitle)])"
proof -
  have t: "title (JObject props) = Inr (JString (''undefined'' @ siteTitle))"
    using assms by (simp add: title_def jsAdd_def)
  show ?thesis
  proof (cases "pageClassName (JObject props)")
    case (Inl e)
    then show ?thesis using t by (simp add: render_def Let_def)
  next
    case (Inr c)
    from render_observed [OF t Inr, of safePrefix] show ?thesis
      using t by auto
  qed
qed

theorem title_without_frontmatter_title_witness:
  "get (JObject blogOnly) ''pageContext.frontmatter.title'' = JUndefined
   \<and> get (JObject blogOnly) ''pageContext.site.siteMetadata.title'' = JString ''Blog''
   \<and> title (JObject blogOnly) = Inr (JString ''undefinedBlog'')
   \<and> \<not> isl (fst (render id blogOnly))
   \<and> titleContent (projr (fst (render id blogOnly))) = [[VExpr (JString ''undefinedBlog'')]]
   \<and> metaContent ''property'' ''og:title'' (projr (fst (render id blogOnly))) = [JString ''undefinedBlog'']
   \<and> metaContent ''name'' ''twitter:title'' (projr (fst (render id blogOnly))) = [JString ''undefinedBlog'']"
proof -
  have h: "get (JObject blogOnly) ''pageContext.frontmatter.title'' = JUndefined"
    "get (JObject blogOnly) ''pageContext.site.siteMetadata.title'' = JString ''Blog''"
    by (simp_all add: get_eval)
  have ok: "\<not> isl (fst (render id blogOnly))"
    by (simp add: get_eval render_def Let_def title_def pageClassName_def jsAdd_def)
  then have r: "fst (render id blogOnly) = Inr (projr (fst (render id blogOnly)))"
    by (cases "fst (render id blogOnly)") simp_all
  note inst = title_without_frontmatter_title [OF h, of id]
  from inst have t: "title (JObject blogOnly) = Inr (JString (''undefined'' @ ''Blog''))"
    by (rule conjunct1)
  from inst r have
    "titleContent (projr (fst (render id blogOnly))) = [[VExpr (JString (''undefined'' @ ''Blog''))]]
     \<and> metaContent ''property'' ''og:title'' (projr (fst (render id blogOnly))) = [JString (''undefined'' @ ''Blog'')]
     \<and> metaContent ''name'' ''twitter:title'' (projr (fst (render id blogOnly))) = [JString (''undefined'' @ ''Blog'')]"
    by blast
  with h ok t show ?thesis
    by simp
qed

section \<open>Properties of the plugin manifest\<close>

text \<open>
  Claim C6. Whatever the directory, the result of \<^verbatim>\<open>path.resolve\<close> and the menus are,
  the manifest declares the same nine plugins in the same order, and in it the markdown
  transformer (position 6, counting from 0) comes before the page creator (position 7).
\<close>

theorem plugins_order:
  "map pluginName (plugins dirname path_resolve menus) =
     [Some ''gatsby-plugin-sitemap'', Some ''gatsby-plugin-robots-txt'',
      Some ''gatsby-plugin-react-helmet'', Some ''gatsby-source-data'',
      Some ''gatsby-source-filesystem'', Some ''gatsby-plugin-stackbit-static-sass'',
      Some ''gatsby-transformer-remark'', Some ''gatsby-remark-page-creator'',
      Some ''@stackbit/gatsby-plugin-menus'']
   \<and> indexOf (map pluginName (plugins dirname path_resolve menus))
         (Some ''gatsby-transformer-remark'') = Some 6
   \<and> indexOf (map pluginName (plugins dirname path_resolve menus))
         (Some ''gatsby-remark-page-creator'') = Some 7"
  by (simp add: plugins_def)


text \<open>
  Claim C10. The \<^verbatim>\<open>exclude\<close> option of the sitemap plugin is the one-element list with
  \<^verbatim>\<open>/admin\<close>, and the \<^verbatim>\<open>policy\<close> option of the robots plugin is the list of one rule,
  which allows \<^verbatim>\<open>/\<close> to the user agent \<^verbatim>\<open>*\<close>.
\<close>

theorem plugins_sitemap_robots:
  "pluginOption (plugins dirname path_resolve menus) ''gatsby-plugin-sitemap'' ''exclude''
     = Some (CArray [CString ''/admin''])
   \<and> pluginOption (plugins dirname path_resolve menus) ''gatsby-plugin-robots-txt'' ''policy''
     = Some (CArray [CObject [(''userAgent'', CString ''*''), (''allow'', CString ''/'')]])"
  by (simp add: plugins_def)

end
